theory Spec2Isabelle
  imports Complex_Main "HOL-Library.AList"
begin

section \<open>Documents, dictionaries and errors\<close>

text \<open>
  The campaign driver (\<^verbatim>\<open>hpcbench/driver.py\<close>) works on YAML and JSON documents, which
  Python holds as nested dicts, lists and scalars. A dict is an association list: it keeps the
  insertion order of the keys, as the Python dict does. Node identifiers (host names, tags,
  benchmark names, categories, run directories) and dict keys are strings.
\<close>

type_synonym path = string

datatype yaml =
    YNone
  | YBool bool
  | YInt int
  | YFloat rat
  | YStr string
  | YList "yaml list"
  | YDict "(string \<times> yaml) list"

type_synonym dict = "(string \<times> yaml) list"

datatype error =
    Exc string
  | ExcFloat string rat
  | KeyError string
  | IOError path
  | NameError string
  | TypeError
  | AttributeError

text \<open>
  \<open>Exc\<close> is an \<^verbatim>\<open>Exception\<close> with its message. The text Python gives a float is not
  computed here: \<open>ExcFloat p r\<close> is the exception whose message is \<open>p\<close> followed by the text
  of the float \<open>r\<close>.
\<close>

text \<open>\<^verbatim>\<open>d.get(k)\<close>, \<open>d[k] = v\<close>, \<open>d.pop(k, None)\<close> and \<open>d.update(m)\<close>.\<close>

definition dict_get :: "dict \<Rightarrow> string \<Rightarrow> yaml option" where
  "dict_get d k = map_of d k"

definition dict_set :: "dict \<Rightarrow> string \<Rightarrow> yaml \<Rightarrow> dict" where
  "dict_set d k v = AList.update k v d"

definition dict_pop :: "dict \<Rightarrow> string \<Rightarrow> dict" where
  "dict_pop d k = AList.delete k d"

definition dict_update :: "dict \<Rightarrow> dict \<Rightarrow> dict" where
  "dict_update d m = fold (\<lambda>(k, v) acc. dict_set acc k v) m d"

text \<open>Truth value of a Python object, as \<open>if x\<close> and \<open>x or y\<close> read it.\<close>

fun py_truthy :: "yaml \<Rightarrow> bool" where
  "py_truthy YNone = False"
| "py_truthy (YBool b) = b"
| "py_truthy (YInt i) = (i \<noteq> 0)"
| "py_truthy (YFloat r) = (r \<noteq> 0)"
| "py_truthy (YStr s) = (s \<noteq> [])"
| "py_truthy (YList xs) = (xs \<noteq> [])"
| "py_truthy (YDict d) = (d \<noteq> [])"

text \<open>
  The Python types of these values, and \<open>isinstance\<close>: \<open>bool\<close> is a subclass of
  \<open>int\<close>, and every value is an instance of \<open>object\<close>.
\<close>

datatype pytype = TNoneType | TBool | TInt | TFloat | TStr | TList | TDict | TObject

fun type_of :: "yaml \<Rightarrow> pytype" where
  "type_of YNone = TNoneType"
| "type_of (YBool b) = TBool"
| "type_of (YInt i) = TInt"
| "type_of (YFloat r) = TFloat"
| "type_of (YStr s) = TStr"
| "type_of (YList xs) = TList"
| "type_of (YDict d) = TDict"

definition isinstance :: "yaml \<Rightarrow> pytype \<Rightarrow> bool" where
  "isinstance v t = (t = TObject \<or> type_of v = t \<or> (type_of v = TBool \<and> t = TInt))"

text \<open>Python's \<open>str\<close> of an integer: its decimal digits, after the sign.\<close>

fun str_nat :: "nat \<Rightarrow> string" where
  "str_nat n =
     (if n < 10 then [char_of (48 + n)] else str_nat (n div 10) @ [char_of (48 + n mod 10)])"

declare str_nat.simps [simp del]

definition str_int :: "int \<Rightarrow> string" where
  "str_int i = (if i < 0 then CHR ''-'' # str_nat (nat (- i)) else str_nat (nat i))"

section \<open>Paths\<close>

text \<open>\<^verbatim>\<open>os.path.join(a, b)\<close> of \<^verbatim>\<open>posixpath\<close>, for two arguments.\<close>

definition osp_join :: "path \<Rightarrow> path \<Rightarrow> path" where
  "osp_join a b =
     (if b \<noteq> [] \<and> hd b = CHR ''/'' then b
      else if a = [] \<or> last a = CHR ''/'' then a @ b
      else a @ ''/'' @ b)"

definition YAML_REPORT_FILE :: path where
  "YAML_REPORT_FILE = ''hpcbench.yaml''"

definition YAML_CAMPAIGN_FILE :: path where
  "YAML_CAMPAIGN_FILE = ''campaign.yaml''"

definition JSON_METRICS_FILE :: path where
  "JSON_METRICS_FILE = ''metrics.json''"

section \<open>The benchmark API (\<^verbatim>\<open>hpcbench/api.py\<close>)\<close>

text \<open>\<^verbatim>\<open>Metric = namedtuple("Metric", "unit type")\<close>\<close>

record metric =
  unit :: string
  mtype :: pytype

text \<open>\<^verbatim>\<open>MetricsExtractor.stdout\<close> and \<^verbatim>\<open>MetricsExtractor.stderr\<close>.\<close>

definition MetricsExtractor_stdout :: "path \<Rightarrow> path" where
  "MetricsExtractor_stdout outdir = osp_join outdir ''stdout.txt''"

definition MetricsExtractor_stderr :: "path \<Rightarrow> path" where
  "MetricsExtractor_stderr outdir = osp_join outdir ''sterrr.txt''"

text \<open>
  A metrics extractor is a plugin: \<open>metrics\<close> is its declaration mapping, \<open>extract_run\<close> (the method \<open>extract\<close>) reads
  the output files of one run (given the run directory and the run's \<open>metas\<close>) and returns
  a mapping from metric names to values, or raises.
\<close>

record extractor =
  metrics :: "(string \<times> metric) list"
  extract_run :: "path \<Rightarrow> yaml option \<Rightarrow> (path \<rightharpoonup> string) \<Rightarrow> error + dict"

text \<open>
  A benchmark is a plugin too. An entry of \<open>execution_matrix\<close> is a dict with the keys
  \<open>command\<close>, \<open>category\<close>, \<open>metas\<close>, and optionally \<open>environment\<close> and \<open>name\<close>.
  \<open>metrics_extractors\<close> gives each category its extractors; the source wraps a single
  extractor into a one-element list, so the list is kept here. \<open>pre_execute\<close> is the hook
  called in the run directory before the command; \<^verbatim>\<open>Benchmark.pre_execute\<close> does nothing.
\<close>

record benchmark =
  name :: string
  attributes :: yaml
  execution_matrix :: "dict list"
  metrics_extractors :: "(string \<times> extractor list) list"
  plots :: "(string \<times> yaml list) list"
  pre_execute :: "path \<Rightarrow> error option"

definition Benchmark_pre_execute :: "path \<Rightarrow> error option" where
  "Benchmark_pre_execute d = None"

text \<open>\<^verbatim>\<open>Benchmark.get_subclass\<close>: the first registered subclass of that name.\<close>

fun get_subclass :: "benchmark list \<Rightarrow> string \<Rightarrow> error + benchmark" where
  "get_subclass [] n = Inl (NameError (''Not a valid Benchmark class: '' @ n))"
| "get_subclass (b # bs) n = (if name b = n then Inr b else get_subclass bs n)"

section \<open>Host names and tag association rules\<close>

text \<open>
  A \<open>match\<close> rule holds a compiled regular expression and the driver calls its
  \<open>match\<close> method, which looks for a match starting at the first character of the host name.
  The patterns are modelled by their syntax tree, matched with derivatives; the flag says
  whether the position is still the start of the string, where \<open>^\<close> matches.
\<close>

datatype regex =
    Never
  | Empty
  | Bol
  | Lit char
  | Dot
  | Seq regex regex
  | Alt regex regex
  | Star regex

fun nullable :: "bool \<Rightarrow> regex \<Rightarrow> bool" where
  "nullable b Never = False"
| "nullable b Empty = True"
| "nullable b Bol = b"
| "nullable b (Lit c) = False"
| "nullable b Dot = False"
| "nullable b (Seq r s) = (nullable b r \<and> nullable b s)"
| "nullable b (Alt r s) = (nullable b r \<or> nullable b s)"
| "nullable b (Star r) = True"

fun deriv :: "bool \<Rightarrow> char \<Rightarrow> regex \<Rightarrow> regex" where
  "deriv b c Never = Never"
| "deriv b c Empty = Never"
| "deriv b c Bol = Never"
| "deriv b c (Lit d) = (if c = d then Empty else Never)"
| "deriv b c Dot = (if c = CHR 0x0A then Never else Empty)"
| "deriv b c (Seq r s) =
     (if nullable b r then Alt (Seq (deriv b c r) s) (deriv b c s) else Seq (deriv b c r) s)"
| "deriv b c (Alt r s) = Alt (deriv b c r) (deriv b c s)"
| "deriv b c (Star r) = Seq (deriv b c r) (Star r)"

fun prefix_match :: "bool \<Rightarrow> regex \<Rightarrow> string \<Rightarrow> bool" where
  "prefix_match b r [] = nullable b r"
| "prefix_match b r (c # cs) = (nullable b r \<or> prefix_match False (deriv b c r) cs)"

definition re_match :: "regex \<Rightarrow> string \<Rightarrow> bool" where
  "re_match r s = prefix_match True r s"

fun literal :: "string \<Rightarrow> regex" where
  "literal [] = Empty"
| "literal (c # cs) = Seq (Lit c) (literal cs)"

text \<open>
  The value of a rule: a compiled pattern or a set of host names. The campaign configuration
  gives the tags of the network, each with its list of rules (a rule is a dict from the
  association mode to such a value), and the benchmarks of every tag.
\<close>

datatype kconfig = Pattern regex | HostSet "string set"

type_synonym config = "(string \<times> kconfig) list"

record campaign =
  output_dir :: string
  network_tags :: "(string \<times> config list) list"
  benchmarks :: "(string \<times> (string \<times> dict) list) list"

text \<open>
  \<^verbatim>\<open>HostDriver.children\<close>. The Python set \<open>benchmarks\<close> is the list of its elements,
  without duplicates; \<open>hostnames\<close> is the set \<open>{'localhost', self.name}\<close>.
\<close>

definition hostnames :: "string \<Rightarrow> string set" where
  "hostnames nm = {''localhost'', nm}"

definition set_add :: "string \<Rightarrow> string list \<Rightarrow> string list" where
  "set_add x xs = (if x \<in> set xs then xs else xs @ [x])"

text \<open>The loop over the items of one rule; \<open>break\<close> in the \<open>nodes\<close> branch leaves it.\<close>

fun config_items :: "string \<Rightarrow> string \<Rightarrow> config \<Rightarrow> string list \<Rightarrow> error + string list" where
  "config_items nm tag [] bs = Inr bs"
| "config_items nm tag ((mode, k) # rest) bs =
     (if mode = ''match'' then
        (case k of
           Pattern r \<Rightarrow>
             config_items nm tag rest
               (if \<exists>host \<in> hostnames nm. re_match r host then set_add tag bs else bs)
         | HostSet hs \<Rightarrow> Inl AttributeError)
      else if mode = ''nodes'' then
        (case k of
           HostSet hs \<Rightarrow>
             (if hostnames nm \<inter> hs \<noteq> {} then Inr (set_add tag bs)
              else config_items nm tag rest bs)
         | Pattern r \<Rightarrow> Inl TypeError)
      else Inl (Exc (''Unknown tag association pattern: '' @ mode)))"

text \<open>The loop over the rules of one tag, left as soon as the tag is selected.\<close>

fun tag_configs :: "string \<Rightarrow> string \<Rightarrow> config list \<Rightarrow> string list \<Rightarrow> error + string list" where
  "tag_configs nm tag [] bs = Inr bs"
| "tag_configs nm tag (cfg # rest) bs =
     (case config_items nm tag cfg bs of
        Inl e \<Rightarrow> Inl e
      | Inr bs' \<Rightarrow> if tag \<in> set bs' then Inr bs' else tag_configs nm tag rest bs')"

fun tags_loop :: "string \<Rightarrow> (string \<times> config list) list \<Rightarrow> string list \<Rightarrow> error + string list" where
  "tags_loop nm [] bs = Inr bs"
| "tags_loop nm ((tag, cfgs) # rest) bs =
     (case tag_configs nm tag cfgs bs of
        Inl e \<Rightarrow> Inl e
      | Inr bs' \<Rightarrow> tags_loop nm rest bs')"

definition HostDriver_children :: "campaign \<Rightarrow> string \<Rightarrow> error + string list" where
  "HostDriver_children C nm = tags_loop nm (network_tags C) [''*'']"

section \<open>The environment and the state\<close>

text \<open>
  What the driver asks of the operating system and of the other modules is gathered in a
  record of parameters: the identifiers \<open>uuid.uuid4\<close> draws (the \<open>n\<close>-th one), the clock,
  the outcome of a spawned command (exit status, standard output, standard error; or the error
  \<open>Popen\<close> raises), the ambient process environment, the host name, the order in which
  Python iterates over a set, the registered benchmark classes, and the plotter of
  \<^verbatim>\<open>hpcbench.plot\<close>, which is called with the metrics, the category, the host name and the
  plot description.
\<close>

record env =
  uuid4 :: "nat \<Rightarrow> string"
  now_isoformat :: "nat \<Rightarrow> string"
  timer_elapsed :: "nat \<Rightarrow> rat"
  popen :: "yaml \<Rightarrow> yaml option \<Rightarrow> path \<Rightarrow> error + int \<times> string \<times> string"
  os_environ :: dict
  gethostname :: string
  set_order :: "string list \<Rightarrow> string list"
  subclasses :: "benchmark list"
  plotter :: "yaml \<Rightarrow> string \<Rightarrow> string \<Rightarrow> yaml \<Rightarrow> error option"

text \<open>
  The state: the YAML and JSON files (\<open>docs\<close>) and the captured output files (\<open>texts\<close>) by
  path, the current working directory, how many identifiers and clock readings were taken, and
  the processes spawned so far, each with its command, the environment given to it
  (\<open>None\<close> when it inherits the ambient one) and its working directory.
\<close>

type_synonym spawn = "yaml \<times> yaml option \<times> path"

record world =
  docs :: "path \<rightharpoonup> yaml"
  texts :: "path \<rightharpoonup> string"
  cwd :: path
  uuid_count :: nat
  ticks :: nat
  spawned :: "spawn list"

text \<open>A relative file name is resolved against the working directory.\<close>

definition abs_path :: "world \<Rightarrow> path \<Rightarrow> path" where
  "abs_path w p = osp_join (cwd w) p"

definition osp_isfile :: "world \<Rightarrow> path \<Rightarrow> bool" where
  "osp_isfile w p = (docs w (abs_path w p) \<noteq> None)"

text \<open>\<^verbatim>\<open>with open(p) as istr: yaml.load(istr)\<close> (and \<open>json.load\<close>).\<close>

definition yaml_load :: "world \<Rightarrow> path \<Rightarrow> error + yaml" where
  "yaml_load w p = (case docs w (abs_path w p) of None \<Rightarrow> Inl (IOError p) | Some d \<Rightarrow> Inr d)"

text \<open>\<^verbatim>\<open>with open(p, 'w') as ostr: yaml.dump(d, ostr)\<close> (and the JSON array of the metrics).\<close>

definition yaml_dump :: "world \<Rightarrow> path \<Rightarrow> yaml \<Rightarrow> world" where
  "yaml_dump w p d = w\<lparr>docs := (docs w)(abs_path w p \<mapsto> d)\<rparr>"

text \<open>
  Modelled from the spec: \<open>pushd\<close> of \<^verbatim>\<open>hpcbench.toolbox.contextlib_ext\<close> is not among the
  sources. It enters the child's working directory (creating it if absent, never failing if it
  exists) and restores the parent directory on return.
\<close>

definition pushd :: "path \<Rightarrow> world \<Rightarrow> world" where
  "pushd d w = w\<lparr>cwd := osp_join (cwd w) d\<rparr>"

definition popd :: "world \<Rightarrow> world \<Rightarrow> world" where
  "popd w0 w = w\<lparr>cwd := cwd w0\<rparr>"

section \<open>The checkpoint-writing wrapper\<close>

text \<open>
  What a wrapped function returns: a list, a generator (given by the values it yields), a dict,
  or an object of another type. \<open>kw_in k kwargs\<close> is \<^verbatim>\<open>k in kwargs\<close>.
\<close>

datatype 'a pydata = PyList "'a list" | PyGenerator "'a list" | PyDict dict | PyOther pytype

definition kw_in :: "string \<Rightarrow> dict \<Rightarrow> bool" where
  "kw_in k kwargs = (k \<in> fst ` set kwargs)"

text \<open>
  \<^verbatim>\<open>write_yaml_report\<close>. \<open>str_of\<close> is Python's \<open>str\<close> on the elements of the sequence.
  The date is read before the wrapped function runs.
\<close>

definition wrap_report :: "('a \<Rightarrow> string) \<Rightarrow> 'a pydata \<Rightarrow> error + dict" where
  "wrap_report str_of data =
     (case data of
        PyList xs \<Rightarrow> Inr [(''children'', YList (map (\<lambda>x. YStr (str_of x)) xs))]
      | PyGenerator xs \<Rightarrow> Inr [(''children'', YList (map (\<lambda>x. YStr (str_of x)) xs))]
      | PyDict d \<Rightarrow> Inr d
      | PyOther t \<Rightarrow> Inl (Exc ''Unexpected data type: %s''))"

definition write_yaml_report ::
  "env \<Rightarrow> ('a \<Rightarrow> string) \<Rightarrow> (world \<Rightarrow> error + 'a pydata \<times> world) \<Rightarrow> dict \<Rightarrow> world
   \<Rightarrow> error + dict \<times> world" where
  "write_yaml_report E str_of func kwargs w =
     (let now = now_isoformat E (ticks w);
          elapsed = timer_elapsed E (ticks w)
      in case func (w\<lparr>ticks := Suc (ticks w)\<rparr>) of
           Inl e \<Rightarrow> Inl e
         | Inr (data, w1) \<Rightarrow>
             (case wrap_report str_of data of
                Inl e \<Rightarrow> Inl e
              | Inr report0 \<Rightarrow>
                  (let report = dict_set (dict_set report0 ''elapsed'' (YFloat elapsed))
                                  ''date'' (YStr now)
                   in if \<not> kw_in ''no_exec'' kwargs
                      then Inr (report, yaml_dump w1 YAML_REPORT_FILE (YDict report))
                      else Inr (report, w1))))"

section \<open>The execution unit\<close>

text \<open>
  The environment given to the process: when the entry has a non-empty \<open>environment\<close>, a copy
  of the ambient environment updated with it (the entry's \<open>environment\<close> is a dict).
\<close>

definition popen_env :: "env \<Rightarrow> dict \<Rightarrow> error + yaml option" where
  "popen_env E execution =
     (case dict_get execution ''environment'' of
        None \<Rightarrow> Inr None
      | Some custom_env \<Rightarrow>
          if py_truthy custom_env then
            (case custom_env of
               YDict d \<Rightarrow> Inr (Some (YDict (dict_update (os_environ E) d)))
             | _ \<Rightarrow> Inl TypeError)
          else Inr None)"

text \<open>\<^verbatim>\<open>ExecutionDriver.__call__\<close>, before the wrapper.\<close>

definition ExecutionDriver_body ::
  "env \<Rightarrow> benchmark \<Rightarrow> dict \<Rightarrow> world \<Rightarrow> error + string pydata \<times> world" where
  "ExecutionDriver_body E b execution w =
     (case pre_execute b (cwd w) of
        Some e \<Rightarrow> Inl e
      | None \<Rightarrow>
          (case popen_env E execution of
             Inl e \<Rightarrow> Inl e
           | Inr penv \<Rightarrow>
               (case dict_get execution ''command'' of
                  None \<Rightarrow> Inl (KeyError ''command'')
                | Some command \<Rightarrow>
                    (case popen E command penv (cwd w) of
                       Inl e \<Rightarrow> Inl e
                     | Inr (exit_status, out, err) \<Rightarrow>
                         Inr (PyDict (dict_update
                                        [(''exit_status'', YInt exit_status),
                                         (''benchmark'', YStr (name b))]
                                        execution),
                              w\<lparr>texts := (texts w)(abs_path w ''stdout.txt'' \<mapsto> out,
                                                    abs_path w ''stderr.txt'' \<mapsto> err),
                                spawned := spawned w @ [(command, penv, cwd w)]\<rparr>)))))"

definition ExecutionDriver_call ::
  "env \<Rightarrow> benchmark \<Rightarrow> dict \<Rightarrow> dict \<Rightarrow> world \<Rightarrow> error + dict \<times> world" where
  "ExecutionDriver_call E b execution kwargs w =
     write_yaml_report E (\<lambda>s. s) (ExecutionDriver_body E b execution) kwargs w"

section \<open>Metrics extraction and validation\<close>

text \<open>\<^verbatim>\<open>MetricsDriver.check_metrics\<close>: the loop over the items of the returned mapping.\<close>

fun check_metrics_items :: "(string \<times> metric) list \<Rightarrow> dict \<Rightarrow> error + unit" where
  "check_metrics_items exposed_metrics [] = Inr ()"
| "check_metrics_items exposed_metrics ((nm, v) # rest) =
     (case map_of exposed_metrics nm of
        None \<Rightarrow> Inl (Exc (''Unexpected metric '' @ [CHR 0x27] @ nm @ [CHR 0x27] @ '' returned''))
      | Some m \<Rightarrow>
          if \<not> isinstance v (mtype m) then Inl (Exc (''Unexpected type for metrics '' @ nm))
          else check_metrics_items exposed_metrics rest)"

definition check_metrics :: "extractor \<Rightarrow> dict \<Rightarrow> error + unit" where
  "check_metrics ex run_metrics = check_metrics_items (metrics ex) run_metrics"

text \<open>\<^verbatim>\<open>metrics.setdefault(cat, []).append(run_metrics)\<close>\<close>

definition append_metrics :: "yaml \<Rightarrow> string \<Rightarrow> dict \<Rightarrow> error + yaml" where
  "append_metrics ms cat run_metrics =
     (case ms of
        YDict m \<Rightarrow>
          (case dict_get m cat of
             None \<Rightarrow> Inr (YDict (dict_set m cat (YList [YDict run_metrics])))
           | Some (YList xs) \<Rightarrow> Inr (YDict (dict_set m cat (YList (xs @ [YDict run_metrics]))))
           | Some _ \<Rightarrow> Inl AttributeError)
      | _ \<Rightarrow> Inl AttributeError)"

text \<open>The loop over the extractors of the category.\<close>

fun extract_loop ::
  "extractor list \<Rightarrow> string \<Rightarrow> path \<Rightarrow> yaml option \<Rightarrow> (path \<rightharpoonup> string) \<Rightarrow> yaml \<Rightarrow> error + yaml" where
  "extract_loop [] cat outdir metas tx ms = Inr ms"
| "extract_loop (ex # exs) cat outdir metas tx ms =
     (case extract_run ex outdir metas tx of
        Inl e \<Rightarrow> Inl e
      | Inr run_metrics \<Rightarrow>
          (case check_metrics ex run_metrics of
             Inl e \<Rightarrow> Inl e
           | Inr u \<Rightarrow>
               (case append_metrics ms cat run_metrics of
                  Inl e \<Rightarrow> Inl e
                | Inr ms' \<Rightarrow> extract_loop exs cat outdir metas tx ms')))"

text \<open>
  \<^verbatim>\<open>cat not in all_extractors\<close> and \<^verbatim>\<open>all_extractors[cat]\<close>: the keys are strings, a list
  or a dict cannot be hashed. \<open>cat\<close> is \<^verbatim>\<open>self.report.get('category')\<close>, which is
  \<open>None\<close> when the report has no such key. The message of the exception is
  \<^verbatim>\<open>'No extractor for benchmark category %s' % cat\<close>.
\<close>

definition no_extractor :: string where
  "no_extractor = ''No extractor for benchmark category ''"

definition lookup_extractors ::
  "(string \<times> extractor list) list \<Rightarrow> yaml option \<Rightarrow> error + (string \<times> extractor list)" where
  "lookup_extractors all_extractors cat =
     (case cat of
        None \<Rightarrow> Inl (Exc (no_extractor @ ''None''))
      | Some YNone \<Rightarrow> Inl (Exc (no_extractor @ ''None''))
      | Some (YBool b) \<Rightarrow> Inl (Exc (no_extractor @ (if b then ''True'' else ''False'')))
      | Some (YInt i) \<Rightarrow> Inl (Exc (no_extractor @ str_int i))
      | Some (YFloat r) \<Rightarrow> Inl (ExcFloat no_extractor r)
      | Some (YStr c) \<Rightarrow>
          (case map_of all_extractors c of
             None \<Rightarrow> Inl (Exc (no_extractor @ c))
           | Some exs \<Rightarrow> Inr (c, exs))
      | Some (YList xs) \<Rightarrow> Inl TypeError
      | Some (YDict d) \<Rightarrow> Inl TypeError)"

text \<open>\<^verbatim>\<open>MetricsDriver.__call__\<close>, before the wrapper; \<open>report\<close> was loaded by \<open>__init__\<close>.\<close>

definition MetricsDriver_body ::
  "benchmark \<Rightarrow> yaml \<Rightarrow> world \<Rightarrow> error + string pydata \<times> world" where
  "MetricsDriver_body b report w =
     (case report of
        YDict r \<Rightarrow>
          (case lookup_extractors (metrics_extractors b) (dict_get r ''category'') of
             Inl e \<Rightarrow> Inl e
           | Inr (cat, extractors) \<Rightarrow>
               (case extract_loop extractors cat (cwd w) (dict_get r ''metas'') (texts w)
                       (case dict_get r ''metrics'' of None \<Rightarrow> YDict [] | Some m \<Rightarrow> m) of
                  Inl e \<Rightarrow> Inl e
                | Inr ms \<Rightarrow> Inr (PyDict (dict_set r ''metrics'' ms), w)))
      | _ \<Rightarrow> Inl AttributeError)"

definition MetricsDriver_call ::
  "env \<Rightarrow> benchmark \<Rightarrow> dict \<Rightarrow> world \<Rightarrow> error + dict \<times> world" where
  "MetricsDriver_call E b kwargs w =
     (case yaml_load w YAML_REPORT_FILE of
        Inl e \<Rightarrow> Inl e
      | Inr report \<Rightarrow> write_yaml_report E (\<lambda>s. s) (MetricsDriver_body b report) kwargs w)"

section \<open>The metrics aggregator\<close>

text \<open>
  \<^verbatim>\<open>for metrics in metricss: gathered.update(metrics)\<close>. The elements are the mappings
  the metrics driver appended, which are dicts; another value is reported as \<open>TypeError\<close>.
\<close>

fun merge_metrics :: "yaml list \<Rightarrow> dict \<Rightarrow> error + dict" where
  "merge_metrics [] gathered = Inr gathered"
| "merge_metrics (m # ms) gathered =
     (case m of
        YDict d \<Rightarrow> merge_metrics ms (dict_update gathered d)
      | _ \<Rightarrow> Inl TypeError)"

text \<open>\<^verbatim>\<open>for cat, metricss in data.get('metrics', {}).items(): ...\<close>\<close>

fun gather_categories :: "dict \<Rightarrow> dict \<Rightarrow> error + dict" where
  "gather_categories [] gathered_metrics = Inr gathered_metrics"
| "gather_categories ((cat, metricss) # rest) gathered_metrics =
     (case metricss of
        YList ms \<Rightarrow>
          (case merge_metrics ms [] of
             Inl e \<Rightarrow> Inl e
           | Inr gathered \<Rightarrow>
               gather_categories rest (dict_set gathered_metrics cat (YDict gathered)))
      | _ \<Rightarrow> Inl TypeError)"

text \<open>The entry of one run in the aggregated document.\<close>

definition gather_run :: "string \<Rightarrow> yaml \<Rightarrow> error + yaml" where
  "gather_run run_dir data =
     (case data of
        YDict d \<Rightarrow>
          (let d3 = dict_set (dict_pop (dict_pop d ''category'') ''command'') ''id'' (YStr run_dir)
           in case (case dict_get d3 ''metrics'' of
                      None \<Rightarrow> Inr []
                    | Some (YDict m) \<Rightarrow> Inr m
                    | Some _ \<Rightarrow> Inl AttributeError) of
                Inl e \<Rightarrow> Inl e
              | Inr m \<Rightarrow>
                  (case gather_categories m [] of
                     Inl e \<Rightarrow> Inl e
                   | Inr gathered_metrics \<Rightarrow>
                       Inr (YDict (dict_set d3 ''metrics'' (YDict gathered_metrics)))))
      | _ \<Rightarrow> Inl AttributeError)"

fun gather_runs :: "world \<Rightarrow> string list \<Rightarrow> error + yaml list" where
  "gather_runs w [] = Inr []"
| "gather_runs w (run_dir # rest) =
     (case yaml_load w (osp_join run_dir YAML_REPORT_FILE) of
        Inl e \<Rightarrow> Inl e
      | Inr data \<Rightarrow>
          (case gather_run run_dir data of
             Inl e \<Rightarrow> Inl e
           | Inr x \<Rightarrow>
               (case gather_runs w rest of
                  Inl e \<Rightarrow> Inl e
                | Inr xs \<Rightarrow> Inr (x # xs))))"

text \<open>\<^verbatim>\<open>BenchmarkCategoryDriver.gather_metrics\<close>: one JSON array per category of \<open>runs\<close>.\<close>

fun gather_metrics :: "(string \<times> string list) list \<Rightarrow> world \<Rightarrow> error + world" where
  "gather_metrics [] w = Inr w"
| "gather_metrics ((category, run_dirs) # rest) w =
     (case gather_runs w run_dirs of
        Inl e \<Rightarrow> Inl e
      | Inr xs \<Rightarrow> gather_metrics rest (yaml_dump w JSON_METRICS_FILE (YList xs)))"

section \<open>The tree of nodes\<close>

text \<open>
  \<^verbatim>\<open>Enumerator.report\<close> and the \<open>children\<close> entry of a report. The wrapper writes the
  children as strings, and the identifiers of this model are strings: a list holding
  anything else is reported as \<open>TypeError\<close>.
\<close>

definition Enumerator_report :: "world \<Rightarrow> error + yaml" where
  "Enumerator_report w = yaml_load w YAML_REPORT_FILE"

fun child_ids :: "yaml list \<Rightarrow> error + string list" where
  "child_ids [] = Inr []"
| "child_ids (YStr s # rest) =
     (case child_ids rest of Inl e \<Rightarrow> Inl e | Inr ss \<Rightarrow> Inr (s # ss))"
| "child_ids (v # rest) = Inl TypeError"

definition report_children :: "yaml \<Rightarrow> error + string list" where
  "report_children report =
     (case report of
        YDict d \<Rightarrow>
          (case dict_get d ''children'' of
             None \<Rightarrow> Inl (KeyError ''children'')
           | Some (YList xs) \<Rightarrow> child_ids xs
           | Some _ \<Rightarrow> Inl TypeError)
      | _ \<Rightarrow> Inl TypeError)"

text \<open>
  \<^verbatim>\<open>Enumerator._children\<close>; \<open>children\<close> is the abstract property of the node, which may
  raise.
\<close>

definition Enumerator_children :: "error + string list \<Rightarrow> world \<Rightarrow> error + string list" where
  "Enumerator_children children w =
     (if osp_isfile w YAML_REPORT_FILE then
        (case Enumerator_report w of Inl e \<Rightarrow> Inl e | Inr report \<Rightarrow> report_children report)
      else children)"

text \<open>
  \<^verbatim>\<open>Enumerator.__call__\<close>: \<open>child_call child kwargs\<close> builds the child object with
  \<open>child_builder\<close> and calls it; the loop yields the child afterwards.
\<close>

fun Enumerator_loop ::
  "(string \<Rightarrow> dict \<Rightarrow> world \<Rightarrow> error + world) \<Rightarrow> dict \<Rightarrow> string list \<Rightarrow> world
   \<Rightarrow> error + string list \<times> world" where
  "Enumerator_loop child_call kwargs [] w = Inr ([], w)"
| "Enumerator_loop child_call kwargs (child # rest) w =
     (case child_call child kwargs (pushd child w) of
        Inl e \<Rightarrow> Inl e
      | Inr w1 \<Rightarrow>
          (case Enumerator_loop child_call kwargs rest (popd w w1) of
             Inl e \<Rightarrow> Inl e
           | Inr (ys, w2) \<Rightarrow> Inr (child # ys, w2)))"

definition Enumerator_body ::
  "(string \<Rightarrow> dict \<Rightarrow> world \<Rightarrow> error + world) \<Rightarrow> error + string list \<Rightarrow> dict \<Rightarrow> world
   \<Rightarrow> error + string pydata \<times> world" where
  "Enumerator_body child_call children kwargs w =
     (case Enumerator_children children w of
        Inl e \<Rightarrow> Inl e
      | Inr cs \<Rightarrow>
          (case Enumerator_loop child_call kwargs cs w of
             Inl e \<Rightarrow> Inl e
           | Inr (ys, w1) \<Rightarrow> Inr (PyGenerator ys, w1)))"

definition Enumerator_call ::
  "env \<Rightarrow> (string \<Rightarrow> dict \<Rightarrow> world \<Rightarrow> error + world) \<Rightarrow> error + string list \<Rightarrow> dict \<Rightarrow> world
   \<Rightarrow> error + dict \<times> world" where
  "Enumerator_call E child_call children kwargs w =
     write_yaml_report E (\<lambda>s. s) (Enumerator_body child_call children kwargs) kwargs w"

text \<open>The report a child returns is dropped by its parent.\<close>

definition discard :: "error + dict \<times> world \<Rightarrow> error + world" where
  "discard r = (case r of Inl e \<Rightarrow> Inl e | Inr (report, w) \<Rightarrow> Inr w)"

text \<open>Iterating over a Python set.\<close>

definition iter_set :: "env \<Rightarrow> error + string list \<Rightarrow> error + string list" where
  "iter_set E s = (case s of Inl e \<Rightarrow> Inl e | Inr xs \<Rightarrow> Inr (set_order E xs))"

subsection \<open>The category node\<close>

text \<open>\<^verbatim>\<open>name = execution.get('name') or ''\<close>, which \<open>osp.join\<close> then takes.\<close>

definition exec_name :: "dict \<Rightarrow> error + string" where
  "exec_name execution =
     (case dict_get execution ''name'' of
        None \<Rightarrow> Inr []
      | Some v \<Rightarrow>
          if py_truthy v then (case v of YStr s \<Rightarrow> Inr s | _ \<Rightarrow> Inl TypeError) else Inr [])"

text \<open>\<^verbatim>\<open>runs.setdefault(category, []).append(run_dir)\<close>\<close>

definition runs_append ::
  "(string \<times> string list) list \<Rightarrow> string \<Rightarrow> string \<Rightarrow> (string \<times> string list) list" where
  "runs_append runs category run_dir =
     (case map_of runs category of
        None \<Rightarrow> runs @ [(category, [run_dir])]
      | Some run_dirs \<Rightarrow> AList.update category (run_dirs @ [run_dir]) runs)"


text \<open>
  The first branch of \<^verbatim>\<open>BenchmarkCategoryDriver.__call__\<close>: the loop over the execution
  matrix. It returns the run directories it yields, \<open>runs\<close> and the state.
\<close>

fun execute_loop ::
  "env \<Rightarrow> benchmark \<Rightarrow> string \<Rightarrow> dict \<Rightarrow> dict list \<Rightarrow> (string \<times> string list) list \<Rightarrow> world
   \<Rightarrow> error + string list \<times> (string \<times> string list) list \<times> world" where
  "execute_loop E b category kwargs [] runs w = Inr ([], runs, w)"
| "execute_loop E b category kwargs (execution # rest) runs w =
     (if dict_get execution ''category'' \<noteq> Some (YStr category)
      then execute_loop E b category kwargs rest runs w
      else
        (case exec_name execution of
           Inl e \<Rightarrow> Inl e
         | Inr nm \<Rightarrow>
             (let run_dir = osp_join nm (uuid4 E (uuid_count w));
                  w1 = w\<lparr>uuid_count := Suc (uuid_count w)\<rparr>
              in case ExecutionDriver_call E b execution kwargs (pushd run_dir w1) of
                   Inl e \<Rightarrow> Inl e
                 | Inr (r, w2) \<Rightarrow>
                     (case MetricsDriver_call E b kwargs w2 of
                        Inl e \<Rightarrow> Inl e
                      | Inr (r', w3) \<Rightarrow>
                          (case execute_loop E b category kwargs rest
                                  (runs_append runs category run_dir) (popd w1 w3) of
                             Inl e \<Rightarrow> Inl e
                           | Inr (ys, runs', w4) \<Rightarrow> Inr (run_dir # ys, runs', w4))))))"

text \<open>The last branch: the loop over the children of the report.\<close>

fun reextract_loop ::
  "env \<Rightarrow> benchmark \<Rightarrow> string \<Rightarrow> dict \<Rightarrow> string list \<Rightarrow> (string \<times> string list) list \<Rightarrow> world
   \<Rightarrow> error + (string \<times> string list) list \<times> world" where
  "reextract_loop E b category kwargs [] runs w = Inr (runs, w)"
| "reextract_loop E b category kwargs (child # rest) runs w =
     (case yaml_load w (osp_join child YAML_REPORT_FILE) of
        Inl e \<Rightarrow> Inl e
      | Inr (YDict child_config) \<Rightarrow>
          (case MetricsDriver_call E b kwargs (pushd child w) of
             Inl e \<Rightarrow> Inl e
           | Inr (r, w1) \<Rightarrow>
               reextract_loop E b category kwargs rest (runs_append runs category child)
                 (popd w w1))
      | Inr _ \<Rightarrow> Inl AttributeError)"

text \<open>
  The middle branch: \<^verbatim>\<open>generate_plot\<close> for every plot of the category. It reads the
  aggregated metrics and hands them to the plotter.
\<close>

fun plot_loop :: "env \<Rightarrow> string \<Rightarrow> yaml list \<Rightarrow> world \<Rightarrow> error option" where
  "plot_loop E category [] w = None"
| "plot_loop E category (plot # rest) w =
     (case yaml_load w JSON_METRICS_FILE of
        Inl e \<Rightarrow> Some e
      | Inr ms \<Rightarrow>
          (case plotter E ms category (gethostname E) plot of
             Some e \<Rightarrow> Some e
           | None \<Rightarrow> plot_loop E category rest w))"

text \<open>
  \<^verbatim>\<open>BenchmarkCategoryDriver.__call__\<close> is a generator function: in each of the three
  branches the wrapper receives a generator, which yields the run directories in the first
  branch and nothing in the other two.
\<close>

definition BenchmarkCategoryDriver_body ::
  "env \<Rightarrow> benchmark \<Rightarrow> string \<Rightarrow> dict \<Rightarrow> world \<Rightarrow> error + string pydata \<times> world" where
  "BenchmarkCategoryDriver_body E b category kwargs w =
     (if \<not> kw_in ''no_exec'' kwargs then
        (case execute_loop E b category kwargs (execution_matrix b) [] w of
           Inl e \<Rightarrow> Inl e
         | Inr (ys, runs, w1) \<Rightarrow>
             (case gather_metrics runs w1 of
                Inl e \<Rightarrow> Inl e
              | Inr w2 \<Rightarrow> Inr (PyGenerator ys, w2)))
      else if kw_in ''plot'' kwargs then
        (case map_of (plots b) category of
           None \<Rightarrow> Inl TypeError
         | Some ps \<Rightarrow>
             (case plot_loop E category ps w of
                Some e \<Rightarrow> Inl e
              | None \<Rightarrow> Inr (PyGenerator [], w)))
      else
        (case Enumerator_report w of
           Inl e \<Rightarrow> Inl e
         | Inr report \<Rightarrow>
             (case report_children report of
                Inl e \<Rightarrow> Inl e
              | Inr children \<Rightarrow>
                  (case reextract_loop E b category kwargs children [] w of
                     Inl e \<Rightarrow> Inl e
                   | Inr (runs, w1) \<Rightarrow>
                       (case gather_metrics runs w1 of
                          Inl e \<Rightarrow> Inl e
                        | Inr w2 \<Rightarrow> Inr (PyGenerator [], w2))))))"

definition BenchmarkCategoryDriver_call ::
  "env \<Rightarrow> benchmark \<Rightarrow> string \<Rightarrow> dict \<Rightarrow> world \<Rightarrow> error + dict \<times> world" where
  "BenchmarkCategoryDriver_call E b category kwargs w =
     write_yaml_report E (\<lambda>s. s) (BenchmarkCategoryDriver_body E b category kwargs) kwargs w"

subsection \<open>The benchmark, tag, host and campaign nodes\<close>

text \<open>\<^verbatim>\<open>BenchmarkDriver.children\<close>: the set of the categories of the execution matrix.\<close>

fun categories_loop :: "dict list \<Rightarrow> string list \<Rightarrow> error + string list" where
  "categories_loop [] categories = Inr categories"
| "categories_loop (execution # rest) categories =
     (case dict_get execution ''category'' of
        None \<Rightarrow> Inl (KeyError ''category'')
      | Some (YStr c) \<Rightarrow> categories_loop rest (set_add c categories)
      | Some _ \<Rightarrow> Inl TypeError)"

definition BenchmarkDriver_children :: "benchmark \<Rightarrow> error + string list" where
  "BenchmarkDriver_children b = categories_loop (execution_matrix b) []"

definition BenchmarkDriver_call ::
  "env \<Rightarrow> benchmark \<Rightarrow> dict \<Rightarrow> world \<Rightarrow> error + dict \<times> world" where
  "BenchmarkDriver_call E b kwargs w =
     Enumerator_call E (\<lambda>child kw w'. discard (BenchmarkCategoryDriver_call E b child kw w'))
       (iter_set E (BenchmarkDriver_children b)) kwargs w"

text \<open>\<^verbatim>\<open>BenchmarkTagDriver.children\<close> and \<^verbatim>\<open>BenchmarkTagDriver.child_builder\<close>.\<close>

definition BenchmarkTagDriver_children :: "campaign \<Rightarrow> string \<Rightarrow> error + string list" where
  "BenchmarkTagDriver_children C nm =
     (case map_of (benchmarks C) nm of
        None \<Rightarrow> Inl (KeyError nm)
      | Some bs \<Rightarrow> Inr (map fst bs))"

definition BenchmarkTagDriver_child_builder ::
  "env \<Rightarrow> campaign \<Rightarrow> string \<Rightarrow> string \<Rightarrow> error + benchmark" where
  "BenchmarkTagDriver_child_builder E C nm child =
     (case map_of (benchmarks C) nm of
        None \<Rightarrow> Inl (KeyError nm)
      | Some bs \<Rightarrow>
          (case map_of bs child of
             None \<Rightarrow> Inl (KeyError child)
           | Some conf \<Rightarrow>
               (case dict_get conf ''type'' of
                  None \<Rightarrow> Inl (KeyError ''type'')
                | Some (YStr t) \<Rightarrow>
                    (case get_subclass (subclasses E) t of
                       Inl e \<Rightarrow> Inl e
                     | Inr b \<Rightarrow>
                         Inr (case dict_get conf ''attributes'' of
                                None \<Rightarrow> b\<lparr>attributes := YDict []\<rparr>
                              | Some a \<Rightarrow> b\<lparr>attributes := a\<rparr>))
                | Some _ \<Rightarrow> Inl TypeError)))"

definition BenchmarkTagDriver_call ::
  "env \<Rightarrow> campaign \<Rightarrow> string \<Rightarrow> dict \<Rightarrow> world \<Rightarrow> error + dict \<times> world" where
  "BenchmarkTagDriver_call E C nm kwargs w =
     Enumerator_call E
       (\<lambda>child kw w'.
          case BenchmarkTagDriver_child_builder E C nm child of
            Inl e \<Rightarrow> Inl e
          | Inr b \<Rightarrow> discard (BenchmarkDriver_call E b kw w'))
       (BenchmarkTagDriver_children C nm) kwargs w"

definition HostDriver_call ::
  "env \<Rightarrow> campaign \<Rightarrow> string \<Rightarrow> dict \<Rightarrow> world \<Rightarrow> error + dict \<times> world" where
  "HostDriver_call E C nm kwargs w =
     Enumerator_call E (\<lambda>child kw w'. discard (BenchmarkTagDriver_call E C child kw w'))
       (iter_set E (HostDriver_children C nm)) kwargs w"

text \<open>
  \<^verbatim>\<open>CampaignDriver\<close>: its only child is the host name. \<open>__call__\<close> enters the campaign
  directory, copies the campaign file there unless the campaign exists already, and runs the
  generic invocation; it returns nothing.
\<close>

record campaign_driver =
  campaign_file :: path
  campaign_path :: path
  existing_campaign :: bool

definition shutil_copy :: "path \<Rightarrow> path \<Rightarrow> world \<Rightarrow> error + world" where
  "shutil_copy src dst w =
     (case yaml_load w src of
        Inl e \<Rightarrow> Inl e
      | Inr d \<Rightarrow> Inr (yaml_dump w dst d))"

definition CampaignDriver_call ::
  "env \<Rightarrow> campaign \<Rightarrow> campaign_driver \<Rightarrow> dict \<Rightarrow> world \<Rightarrow> error + world" where
  "CampaignDriver_call E C drv kwargs w =
     (case (if \<not> existing_campaign drv
            then shutil_copy (campaign_file drv) YAML_CAMPAIGN_FILE (pushd (campaign_path drv) w)
            else Inr (pushd (campaign_path drv) w)) of
        Inl e \<Rightarrow> Inl e
      | Inr w1 \<Rightarrow>
          (case Enumerator_call E (\<lambda>child kw w'. discard (HostDriver_call E C child kw w'))
                  (Inr [gethostname E]) kwargs w1 of
             Inl e \<Rightarrow> Inl e
           | Inr (report, w2) \<Rightarrow> Inr (popd w w2)))"

section \<open>A small campaign\<close>

text \<open>
  One benchmark \<open>demo\<close> with one entry in the category \<open>foo\<close>, whose command refers to
  \<open>{outdir}\<close>, and one extractor declaring the metric \<open>duration\<close>. In this environment every
  command exits with status 3, and the \<open>n\<close>-th identifier is \<open>n + 1\<close> letters \<open>u\<close>.
\<close>

definition demo_extractor :: extractor where
  "demo_extractor =
     \<lparr>metrics = [(''duration'', \<lparr>unit = ''s'', mtype = TFloat\<rparr>)],
      extract_run = (\<lambda>outdir metas tx. Inr [(''duration'', YFloat (3 / 2))])\<rparr>"

definition demo_entry :: dict where
  "demo_entry =
     [(''category'', YStr ''foo''),
      (''command'', YList [YStr ''cat'', YStr ''{outdir}/in'']),
      (''metas'', YDict [(''cores'', YInt 1)])]"

definition demo_benchmark :: benchmark where
  "demo_benchmark =
     \<lparr>name = ''demo'', attributes = YDict [], execution_matrix = [demo_entry],
      metrics_extractors = [(''foo'', [demo_extractor])], plots = [],
      pre_execute = Benchmark_pre_execute\<rparr>"

definition demo_env :: env where
  "demo_env =
     \<lparr>uuid4 = (\<lambda>n. replicate (Suc n) CHR ''u''),
      now_isoformat = (\<lambda>n. ''T+'' @ replicate n CHR ''s''),
      timer_elapsed = (\<lambda>n. 0),
      popen = (\<lambda>command penv d. Inr (3, ''out'', ''err'')),
      os_environ = [],
      gethostname = ''web-01'',
      set_order = (\<lambda>xs. xs),
      subclasses = [demo_benchmark],
      plotter = (\<lambda>ms category host plot. None)\<rparr>"

definition demo_campaign :: campaign where
  "demo_campaign =
     \<lparr>output_dir = ''c'', network_tags = [],
      benchmarks = [(''*'', [(''demo'', [(''type'', YStr ''demo'')])])]\<rparr>"

text \<open>An empty category directory \<open>/c\<close>, and an empty file system with the campaign file.\<close>

definition demo_world :: world where
  "demo_world =
     \<lparr>docs = Map.empty, texts = Map.empty, cwd = ''/c'', uuid_count = 0, ticks = 0,
      spawned = []\<rparr>"

definition demo_root :: world where
  "demo_root =
     \<lparr>docs = [''/campaign.yaml'' \<mapsto> YDict []], texts = Map.empty, cwd = ''/'', uuid_count = 0,
      ticks = 0, spawned = []\<rparr>"

text \<open>What is observed of the outcome of a call: the state, the report, a file, the processes.\<close>

definition world_after :: "error + 'a \<times> world \<Rightarrow> world option" where
  "world_after r = (case r of Inl e \<Rightarrow> None | Inr (x, w) \<Rightarrow> Some w)"

definition report_after :: "error + dict \<times> world \<Rightarrow> dict option" where
  "report_after r = (case r of Inl e \<Rightarrow> None | Inr (d, w) \<Rightarrow> Some d)"

definition doc_at :: "path \<Rightarrow> world option \<Rightarrow> yaml option" where
  "doc_at p r = (case r of None \<Rightarrow> None | Some w \<Rightarrow> docs w p)"

definition text_at :: "path \<Rightarrow> world option \<Rightarrow> string option" where
  "text_at p r = (case r of None \<Rightarrow> None | Some w \<Rightarrow> texts w p)"

definition spawned_by :: "world option \<Rightarrow> spawn list option" where
  "spawned_by r = (case r of None \<Rightarrow> None | Some w \<Rightarrow> Some (spawned w))"


text \<open>The pattern \<open>^web.*\<close>, and the rules of the tags \<open>web\<close> and \<open>db\<close>.\<close>

definition web_pattern :: regex where
  "web_pattern = Seq Bol (Seq (literal ''web'') (Star Dot))"

definition web_campaign :: campaign where
  "web_campaign =
     \<lparr>output_dir = ''c'', network_tags = [(''web'', [[(''match'', Pattern web_pattern)]])],
      benchmarks = []\<rparr>"

definition db_campaign :: campaign where
  "db_campaign =
     \<lparr>output_dir = ''c'', network_tags = [(''db'', [[(''nodes'', HostSet {''db-01''})]])],
      benchmarks = []\<rparr>"

text \<open>
  When a rule selects its tag for a host: a \<open>match\<close> rule when its pattern matches the host
  name or \<open>localhost\<close>, a \<open>nodes\<close> rule when its set holds one of the two.
\<close>

definition rule_selects :: "string \<Rightarrow> string \<times> kconfig \<Rightarrow> bool" where
  "rule_selects nm item =
     (case item of
        (mode, Pattern r) \<Rightarrow> mode = ''match'' \<and> (re_match r nm \<or> re_match r ''localhost'')
      | (mode, HostSet hs) \<Rightarrow> mode = ''nodes'' \<and> (nm \<in> hs \<or> ''localhost'' \<in> hs))"

text \<open>A rule the driver accepts: mode \<open>match\<close> with a pattern or mode \<open>nodes\<close> with a set.\<close>

definition rule_known :: "string \<times> kconfig \<Rightarrow> bool" where
  "rule_known item =
     (case item of
        (mode, Pattern r) \<Rightarrow> mode = ''match''
      | (mode, HostSet hs) \<Rightarrow> mode = ''nodes'')"








text \<open>
  The category directory \<open>/c\<close> with one run \<open>u\<close>, whose report holds the two mappings
  \<open>{a: 1}\<close> and \<open>{a: 2}\<close> for the category \<open>foo\<close>.
\<close>

definition run_doc :: dict where
  "run_doc =
     [(''exit_status'', YInt 3),
      (''category'', YStr ''foo''),
      (''command'', YList [YStr ''cat'', YStr ''{outdir}/in'']),
      (''metas'', YDict [(''cores'', YInt 1)]),
      (''metrics'', YDict [(''foo'', YList [YDict [(''a'', YInt 1)], YDict [(''a'', YInt 2)]])])]"

definition gather_world :: world where
  "gather_world =
     \<lparr>docs = [''/c/u/hpcbench.yaml'' \<mapsto> YDict run_doc],
      texts = Map.empty, cwd = ''/c'', uuid_count = 1, ticks = 3, spawned = []\<rparr>"

definition state_after :: "error + world \<Rightarrow> world option" where
  "state_after r = (case r of Inl e \<Rightarrow> None | Inr w \<Rightarrow> Some w)"




text \<open>
  The demo campaign, run from \<open>/\<close> into the campaign directory \<open>/c\<close>: a first time from
  the campaign file, then again on the existing directory. \<open>then_call\<close> makes a call in the
  state a campaign left, and \<open>children_in\<close> reads the children of a node there.
\<close>

definition demo_driver :: campaign_driver where
  "demo_driver = \<lparr>campaign_file = ''/campaign.yaml'', campaign_path = ''c'', existing_campaign = False\<rparr>"

definition existing_driver :: campaign_driver where
  "existing_driver =
     \<lparr>campaign_file = ''/c/campaign.yaml'', campaign_path = ''c'', existing_campaign = True\<rparr>"

definition then_call :: "world option \<Rightarrow> (world \<Rightarrow> error + world) \<Rightarrow> error + world" where
  "then_call r f = (case r of None \<Rightarrow> Inl (Exc ''no state'') | Some w \<Rightarrow> f w)"

definition children_in :: "world option \<Rightarrow> (world \<Rightarrow> error + string list) \<Rightarrow> error + string list" where
  "children_in r f = (case r of None \<Rightarrow> Inl (Exc ''no state'') | Some w \<Rightarrow> f w)"

definition first_campaign :: "world option" where
  "first_campaign = state_after (CampaignDriver_call demo_env demo_campaign demo_driver [] demo_root)"

definition second_campaign :: "world option" where
  "second_campaign =
     state_after (then_call first_campaign (CampaignDriver_call demo_env demo_campaign existing_driver []))"

section \<open>Dictionaries and paths: basic facts\<close>

lemma dict_get_set: "dict_get (dict_set d k v) k' = (if k' = k then Some v else dict_get d k')"
  by (simp add: dict_get_def dict_set_def update_conv')

lemma dict_get_pop: "dict_get (dict_pop d k) k' = (if k' = k then None else dict_get d k')"
  by (simp add: dict_get_def dict_pop_def delete_conv')

lemma osp_join_rel:
  "b \<noteq> [] \<Longrightarrow> hd b \<noteq> CHR ''/'' \<Longrightarrow> c \<noteq> [] \<Longrightarrow> hd c \<noteq> CHR ''/'' \<Longrightarrow>
   osp_join a b = osp_join a c \<longleftrightarrow> b = c"
  by (auto simp: osp_join_def)

section \<open>The host and tag selector\<close>

lemma set_set_add: "set (set_add x xs) = insert x (set xs)"
  by (auto simp: set_add_def)

lemma config_items_sound:
  "config_items nm tag cfg bs = Inr bs' \<Longrightarrow>
   set bs' = set bs \<union> (if \<exists>item\<in>set cfg. rule_selects nm item then {tag} else {})"
proof (induction cfg arbitrary: bs)
  case Nil
  then show ?case by simp
next
  case (Cons item cfg)
  obtain mode k where item: "item = (mode, k)" by (cases item)
  show ?case
  proof (cases k)
    case (Pattern r)
    with Cons.prems item have m: "mode = ''match''"
      by (auto split: if_splits)
    with Cons.prems item Pattern have
      "config_items nm tag cfg (if \<exists>host \<in> hostnames nm. re_match r host then set_add tag bs else bs) = Inr bs'"
      by simp
    from Cons.IH[OF this] show ?thesis
      using item Pattern m by (auto simp: rule_selects_def hostnames_def set_set_add split: if_splits)
  next
    case (HostSet hs)
    with Cons.prems item have m: "mode = ''nodes''"
      by (auto split: if_splits)
    show ?thesis
    proof (cases "hostnames nm \<inter> hs \<noteq> {}")
      case True
      with Cons.prems item HostSet m have "bs' = set_add tag bs" by simp
      moreover from True have "rule_selects nm item"
        using item HostSet m by (auto simp: rule_selects_def hostnames_def)
      ultimately show ?thesis by (auto simp: set_set_add)
    next
      case False
      with Cons.prems item HostSet m have "config_items nm tag cfg bs = Inr bs'" by simp
      from Cons.IH[OF this] False show ?thesis
        using item HostSet m by (auto simp: rule_selects_def hostnames_def split: if_splits)
    qed
  qed
qed

lemma tag_configs_sound:
  "tag_configs nm tag cfgs bs = Inr bs' \<Longrightarrow>
   set bs' = set bs \<union> (if \<exists>cfg\<in>set cfgs. \<exists>item\<in>set cfg. rule_selects nm item then {tag} else {})"
proof (induction cfgs arbitrary: bs)
  case Nil
  then show ?case by simp
next
  case (Cons cfg cfgs)
  from Cons.prems obtain b1 where c: "config_items nm tag cfg bs = Inr b1"
    by (auto split: sum.splits)
  note s1 = config_items_sound[OF c]
  show ?case
  proof (cases "tag \<in> set b1")
    case True
    with Cons.prems c have "bs' = b1" by simp
    with s1 True show ?thesis by (auto split: if_splits)
  next
    case False
    with Cons.prems c have "tag_configs nm tag cfgs b1 = Inr bs'" by simp
    from Cons.IH[OF this] s1 False show ?thesis by (auto split: if_splits)
  qed
qed

lemma tags_loop_sound:
  "tags_loop nm tags bs = Inr bs' \<Longrightarrow>
   set bs' = set bs \<union> {tag. \<exists>cfgs cfg item. (tag, cfgs) \<in> set tags \<and> cfg \<in> set cfgs \<and> item \<in> set cfg \<and> rule_selects nm item}"
proof (induction tags arbitrary: bs)
  case Nil
  then show ?case by simp
next
  case (Cons p tags)
  obtain tag cfgs where p: "p = (tag, cfgs)" by (cases p)
  from Cons.prems p obtain b1 where c: "tag_configs nm tag cfgs bs = Inr b1"
    and r: "tags_loop nm tags b1 = Inr bs'"
    by (auto split: sum.splits)
  from Cons.IH[OF r] tag_configs_sound[OF c] p show ?case
    by (auto split: if_splits)
qed

lemma config_items_total:
  "\<forall>item\<in>set cfg. rule_known item \<Longrightarrow> \<exists>bs'. config_items nm tag cfg bs = Inr bs'"
proof (induction cfg arbitrary: bs)
  case Nil
  then show ?case by simp
next
  case (Cons item cfg)
  obtain mode k where item: "item = (mode, k)" by (cases item)
  with Cons show ?case
    by (cases k) (auto simp: rule_known_def)
qed

lemma tag_configs_total:
  "\<forall>cfg\<in>set cfgs. \<forall>item\<in>set cfg. rule_known item \<Longrightarrow> \<exists>bs'. tag_configs nm tag cfgs bs = Inr bs'"
proof (induction cfgs arbitrary: bs)
  case Nil
  then show ?case by simp
next
  case (Cons cfg cfgs)
  then obtain b1 where "config_items nm tag cfg bs = Inr b1"
    using config_items_total[of cfg nm tag bs] by auto
  with Cons show ?case by auto
qed

lemma tags_loop_total:
  "\<forall>(tag, cfgs)\<in>set tags. \<forall>cfg\<in>set cfgs. \<forall>item\<in>set cfg. rule_known item \<Longrightarrow> \<exists>bs'. tags_loop nm tags bs = Inr bs'"
proof (induction tags arbitrary: bs)
  case Nil
  then show ?case by simp
next
  case (Cons p tags)
  obtain tag cfgs where p: "p = (tag, cfgs)" by (cases p)
  with Cons.prems obtain b1 where "tag_configs nm tag cfgs bs = Inr b1"
    using tag_configs_total[of cfgs nm tag bs] by auto
  with Cons p show ?case by auto
qed

text \<open>
  C4. The tags computed for a host always contain the wildcard \<open>*\<close>; another tag is among
  them exactly when one of its rules selects it: a \<open>match\<close> rule whose pattern matches the host
  name or \<open>localhost\<close>, or a \<open>nodes\<close> rule whose set holds one of the two. Whenever every rule
  has a known mode the computation returns a result. With the rule \<open>match: ^web.*\<close> for the tag
  \<open>web\<close> the host \<open>web-01\<close> gets \<open>*\<close> and \<open>web\<close>; with the rule \<open>nodes: {db-01}\<close> for
  the tag \<open>db\<close> it gets \<open>*\<close> only.
\<close>

theorem host_tag_selection:
  "(HostDriver_children C nm = Inr bs \<longrightarrow>
      ''*'' \<in> set bs \<and>
      (\<forall>tag. tag \<in> set bs \<longleftrightarrow>
         tag = ''*'' \<or>
         (\<exists>cfgs cfg item. (tag, cfgs) \<in> set (network_tags C) \<and> cfg \<in> set cfgs \<and>
            item \<in> set cfg \<and> rule_selects nm item)))
   \<and> ((\<forall>(tag, cfgs)\<in>set (network_tags C). \<forall>cfg\<in>set cfgs. \<forall>item\<in>set cfg. rule_known item) \<longrightarrow>
        (\<exists>bs'. HostDriver_children C nm = Inr bs'))
   \<and> map_sum id set (HostDriver_children web_campaign ''web-01'') = Inr {''*'', ''web''}
   \<and> map_sum id set (HostDriver_children db_campaign ''web-01'') = Inr {''*''}"
proof (intro conjI impI)
  assume h: "HostDriver_children C nm = Inr bs"
  then have s: "set bs = {''*''} \<union> {tag. \<exists>cfgs cfg item. (tag, cfgs) \<in> set (network_tags C) \<and>
      cfg \<in> set cfgs \<and> item \<in> set cfg \<and> rule_selects nm item}"
    unfolding HostDriver_children_def by (drule_tac tags_loop_sound) simp
  show "''*'' \<in> set bs" using s by blast
  show "\<forall>tag. tag \<in> set bs \<longleftrightarrow>
         tag = ''*'' \<or>
         (\<exists>cfgs cfg item. (tag, cfgs) \<in> set (network_tags C) \<and> cfg \<in> set cfgs \<and>
            item \<in> set cfg \<and> rule_selects nm item)"
    unfolding s by blast
next
  assume "\<forall>(tag, cfgs)\<in>set (network_tags C). \<forall>cfg\<in>set cfgs. \<forall>item\<in>set cfg. rule_known item"
  then show "\<exists>bs'. HostDriver_children C nm = Inr bs'"
    unfolding HostDriver_children_def by (rule tags_loop_total)
next
  show "map_sum id set (HostDriver_children web_campaign ''web-01'') = Inr {''*'', ''web''}"
    by (simp add: HostDriver_children_def web_campaign_def web_pattern_def hostnames_def
        re_match_def set_add_def insert_commute)
next
  show "map_sum id set (HostDriver_children db_campaign ''web-01'') = Inr {''*''}"
    by (simp add: HostDriver_children_def db_campaign_def hostnames_def set_add_def)
qed

theorem host_tag_selection_witness:
  "HostDriver_children web_campaign ''web-01'' = Inr [''*'', ''web'']
   \<and> ''*'' \<in> set [''*'', ''web'']
   \<and> (''web'' \<in> set [''*'', ''web''] \<longleftrightarrow> ''web'' = ''*'' \<or>
        (\<exists>cfgs cfg item. (''web'', cfgs) \<in> set (network_tags web_campaign) \<and> cfg \<in> set cfgs \<and>
            item \<in> set cfg \<and> rule_selects ''web-01'' item))
   \<and> (\<exists>bs'. HostDriver_children web_campaign ''web-01'' = Inr bs')"
proof -
  have h: "HostDriver_children web_campaign ''web-01'' = Inr [''*'', ''web'']"
    by (simp add: HostDriver_children_def web_campaign_def web_pattern_def hostnames_def
        re_match_def set_add_def)
  have k: "\<forall>(tag, cfgs)\<in>set (network_tags web_campaign). \<forall>cfg\<in>set cfgs. \<forall>item\<in>set cfg. rule_known item"
    by (simp add: web_campaign_def rule_known_def)
  from host_tag_selection[of web_campaign "''web-01''" "[''*'', ''web'']"] h k
  show ?thesis by blast
qed

section \<open>The output files of a run\<close>

text \<open>
  C10. In the run directory \<open>/c/u\<close> the execution unit writes the standard error of the command
  to \<open>/c/u/stderr.txt\<close>, while the helper \<open>stderr\<close> of the extractors returns
  \<open>/c/u/sterrr.txt\<close>, a file that does not exist after the run.
\<close>

theorem stderr_helper_names_other_file:
  "MetricsExtractor_stderr ''/c/u'' = ''/c/u/sterrr.txt''
   \<and> text_at ''/c/u/stderr.txt''
        (world_after (ExecutionDriver_call demo_env demo_benchmark demo_entry []
           (pushd ''u'' demo_world))) = Some ''err''
   \<and> text_at (MetricsExtractor_stderr ''/c/u'')
        (world_after (ExecutionDriver_call demo_env demo_benchmark demo_entry []
           (pushd ''u'' demo_world))) = None
   \<and> text_at (MetricsExtractor_stdout ''/c/u'')
        (world_after (ExecutionDriver_call demo_env demo_benchmark demo_entry []
           (pushd ''u'' demo_world))) = Some ''out''"
  by code_simp

text \<open>
  C3. The entry of the demo benchmark has the command \<open>cat {outdir}/in\<close>. Run in the directory
  \<open>/c/u\<close>, the execution unit spawns the command with the placeholder \<open>{outdir}\<close> still in it.
\<close>

theorem outdir_placeholder_reaches_process:
  "spawned_by (world_after (ExecutionDriver_call demo_env demo_benchmark demo_entry []
      (pushd ''u'' demo_world)))
   = Some [(YList [YStr ''cat'', YStr ''{outdir}/in''], None, ''/c/u'')]"
  by code_simp

section \<open>The wrapper\<close>

lemma write_yaml_report_Inr:
  assumes "func (w\<lparr>ticks := Suc (ticks w)\<rparr>) = Inr (data, w1)"
    and "wrap_report str_of data = Inr report0"
  shows "write_yaml_report E str_of func kwargs w =
     Inr (dict_set (dict_set report0 ''elapsed'' (YFloat (timer_elapsed E (ticks w))))
            ''date'' (YStr (now_isoformat E (ticks w))),
          if kw_in ''no_exec'' kwargs then w1
          else yaml_dump w1 YAML_REPORT_FILE
                 (YDict (dict_set (dict_set report0 ''elapsed'' (YFloat (timer_elapsed E (ticks w))))
                    ''date'' (YStr (now_isoformat E (ticks w))))))"
  using assms by (simp add: write_yaml_report_def Let_def)



text \<open>
  C8. Whatever the wrapped function of a node returns: a list or a generator gives the report
  \<open>{children: [...]}\<close> with the elements turned to strings, a dict is taken as it is, and any
  other object raises an error. In the first two cases the keys \<open>elapsed\<close> and \<open>date\<close> are
  set in the report, which is then returned, and written to the checkpoint file unless
  \<open>no_exec\<close> is among the keyword arguments.
\<close>

theorem write_yaml_report_result_shapes:
  assumes "func (w\<lparr>ticks := Suc (ticks w)\<rparr>) = Inr (data, w1)"
  shows
    "(\<forall>xs. data = PyList xs \<or> data = PyGenerator xs \<longrightarrow>
        (\<exists>report w'. write_yaml_report E str_of func kwargs w = Inr (report, w')
           \<and> report = [(''children'', YList (map (\<lambda>x. YStr (str_of x)) xs)),
                       (''elapsed'', YFloat (timer_elapsed E (ticks w))),
                       (''date'', YStr (now_isoformat E (ticks w)))]
           \<and> w' = (if kw_in ''no_exec'' kwargs then w1
                   else yaml_dump w1 YAML_REPORT_FILE (YDict report))))
     \<and> (\<forall>d. data = PyDict d \<longrightarrow>
        (\<exists>report w'. write_yaml_report E str_of func kwargs w = Inr (report, w')
           \<and> dict_get report ''elapsed'' = Some (YFloat (timer_elapsed E (ticks w)))
           \<and> dict_get report ''date'' = Some (YStr (now_isoformat E (ticks w)))
           \<and> (\<forall>k. k \<noteq> ''elapsed'' \<and> k \<noteq> ''date'' \<longrightarrow> dict_get report k = dict_get d k)
           \<and> w' = (if kw_in ''no_exec'' kwargs then w1
                   else yaml_dump w1 YAML_REPORT_FILE (YDict report))))
     \<and> (\<forall>t. data = PyOther t \<longrightarrow>
        write_yaml_report E str_of func kwargs w = Inl (Exc ''Unexpected data type: %s''))"
proof (intro conjI allI impI)
  fix xs assume "data = PyList xs \<or> data = PyGenerator xs"
  then have "wrap_report str_of data = Inr [(''children'', YList (map (\<lambda>x. YStr (str_of x)) xs))]"
    by (auto simp: wrap_report_def)
  from write_yaml_report_Inr[where func=func and w=w and E=E and kwargs=kwargs, OF assms this]
  show "\<exists>report w'. write_yaml_report E str_of func kwargs w = Inr (report, w')
           \<and> report = [(''children'', YList (map (\<lambda>x. YStr (str_of x)) xs)),
                       (''elapsed'', YFloat (timer_elapsed E (ticks w))),
                       (''date'', YStr (now_isoformat E (ticks w)))]
           \<and> w' = (if kw_in ''no_exec'' kwargs then w1
                   else yaml_dump w1 YAML_REPORT_FILE (YDict report))"
    by (simp add: dict_set_def)
next
  fix d assume "data = PyDict d"
  then have "wrap_report str_of data = Inr d"
    by (simp add: wrap_report_def)
  from write_yaml_report_Inr[where func=func and w=w and E=E and kwargs=kwargs, OF assms this]
  show "\<exists>report w'. write_yaml_report E str_of func kwargs w = Inr (report, w')
           \<and> dict_get report ''elapsed'' = Some (YFloat (timer_elapsed E (ticks w)))
           \<and> dict_get report ''date'' = Some (YStr (now_isoformat E (ticks w)))
           \<and> (\<forall>k. k \<noteq> ''elapsed'' \<and> k \<noteq> ''date'' \<longrightarrow> dict_get report k = dict_get d k)
           \<and> w' = (if kw_in ''no_exec'' kwargs then w1
                   else yaml_dump w1 YAML_REPORT_FILE (YDict report))"
    by (simp add: dict_get_set)
next
  fix t assume "data = PyOther t"
  with assms show "write_yaml_report E str_of func kwargs w = Inl (Exc ''Unexpected data type: %s'')"
    by (simp add: write_yaml_report_def wrap_report_def Let_def)
qed

theorem write_yaml_report_result_shapes_witness:
  "report_after (write_yaml_report demo_env (\<lambda>s. s) (\<lambda>w. Inr (PyGenerator [''u'', ''v''], w)) [] demo_world)
     = Some [(''children'', YList [YStr ''u'', YStr ''v'']), (''elapsed'', YFloat 0), (''date'', YStr ''T+'')]
   \<and> doc_at ''/c/hpcbench.yaml''
       (world_after (write_yaml_report demo_env (\<lambda>s. s) (\<lambda>w. Inr (PyGenerator [''u'', ''v''], w)) [] demo_world))
     = Some (YDict [(''children'', YList [YStr ''u'', YStr ''v'']), (''elapsed'', YFloat 0), (''date'', YStr ''T+'')])
   \<and> report_after (write_yaml_report demo_env (\<lambda>s. s) (\<lambda>w. Inr (PyDict [(''exit_status'', YInt 3)], w))
        [(''no_exec'', YBool True)] demo_world)
     = Some [(''exit_status'', YInt 3), (''elapsed'', YFloat 0), (''date'', YStr ''T+'')]
   \<and> doc_at ''/c/hpcbench.yaml''
       (world_after (write_yaml_report demo_env (\<lambda>s. s) (\<lambda>w. Inr (PyDict [(''exit_status'', YInt 3)], w))
          [(''no_exec'', YBool True)] demo_world))
     = None
   \<and> write_yaml_report demo_env (\<lambda>s. s) (\<lambda>w. Inr (PyOther TInt, w)) [] demo_world
     = Inl (Exc ''Unexpected data type: %s'')"
proof -
  have g: "(\<lambda>w. Inr (PyGenerator [''u'', ''v''], w)) (demo_world\<lparr>ticks := Suc (ticks demo_world)\<rparr>)
      = Inr (PyGenerator [''u'', ''v''], demo_world\<lparr>ticks := Suc (ticks demo_world)\<rparr>)"
    by simp
  have d: "(\<lambda>w. Inr (PyDict [(''exit_status'', YInt 3)], w)) (demo_world\<lparr>ticks := Suc (ticks demo_world)\<rparr>)
      = Inr (PyDict [(''exit_status'', YInt 3)], demo_world\<lparr>ticks := Suc (ticks demo_world)\<rparr>)"
    by simp
  have t: "(\<lambda>w. Inr (PyOther TInt, w)) (demo_world\<lparr>ticks := Suc (ticks demo_world)\<rparr>)
      = Inr (PyOther TInt, demo_world\<lparr>ticks := Suc (ticks demo_world)\<rparr>)"
    by simp
  from write_yaml_report_result_shapes[where func="\<lambda>w. Inr (PyGenerator [''u'', ''v''], w)"
      and w=demo_world and E=demo_env and str_of="\<lambda>s. s" and kwargs="[]", OF g]
  have 1: "report_after (write_yaml_report demo_env (\<lambda>s. s) (\<lambda>w. Inr (PyGenerator [''u'', ''v''], w)) [] demo_world)
     = Some [(''children'', YList [YStr ''u'', YStr ''v'']), (''elapsed'', YFloat 0), (''date'', YStr ''T+'')]
   \<and> doc_at ''/c/hpcbench.yaml''
       (world_after (write_yaml_report demo_env (\<lambda>s. s) (\<lambda>w. Inr (PyGenerator [''u'', ''v''], w)) [] demo_world))
     = Some (YDict [(''children'', YList [YStr ''u'', YStr ''v'']), (''elapsed'', YFloat 0), (''date'', YStr ''T+'')])"
    by (auto simp: report_after_def world_after_def doc_at_def demo_env_def demo_world_def kw_in_def
        yaml_dump_def abs_path_def osp_join_def YAML_REPORT_FILE_def)
  from write_yaml_report_result_shapes[where func="\<lambda>w. Inr (PyDict [(''exit_status'', YInt 3)], w)"
      and w=demo_world and E=demo_env and str_of="\<lambda>s. s" and kwargs="[(''no_exec'', YBool True)]", OF d]
  obtain report w' where r:
    "write_yaml_report demo_env (\<lambda>s. s) (\<lambda>w. Inr (PyDict [(''exit_status'', YInt 3)], w))
        [(''no_exec'', YBool True)] demo_world = Inr (report, w')"
    "w' = demo_world\<lparr>ticks := Suc (ticks demo_world)\<rparr>"
    by (auto simp: kw_in_def)
  have 2: "report_after (write_yaml_report demo_env (\<lambda>s. s) (\<lambda>w. Inr (PyDict [(''exit_status'', YInt 3)], w))
        [(''no_exec'', YBool True)] demo_world)
     = Some [(''exit_status'', YInt 3), (''elapsed'', YFloat 0), (''date'', YStr ''T+'')]"
    by (simp add: report_after_def write_yaml_report_def wrap_report_def demo_env_def demo_world_def
        kw_in_def dict_set_def Let_def)
  have 3: "doc_at ''/c/hpcbench.yaml''
       (world_after (write_yaml_report demo_env (\<lambda>s. s) (\<lambda>w. Inr (PyDict [(''exit_status'', YInt 3)], w))
          [(''no_exec'', YBool True)] demo_world)) = None"
    using r by (simp add: world_after_def doc_at_def demo_world_def)
  from write_yaml_report_result_shapes[where func="\<lambda>w. Inr (PyOther TInt, w)"
      and w=demo_world and E=demo_env and str_of="\<lambda>s. s" and kwargs="[]", OF t]
  have 4: "write_yaml_report demo_env (\<lambda>s. s) (\<lambda>w. Inr (PyOther TInt, w)) [] demo_world
     = Inl (Exc ''Unexpected data type: %s'')"
    by simp
  from 1 2 3 4 show ?thesis by simp
qed

section \<open>Metrics extraction and validation: properties\<close>
















section \<open>The metrics aggregator: properties\<close>

lemma dict_update_Cons: "dict_update d ((k, v) # m) = dict_update (dict_set d k v) m"
  by (simp add: dict_update_def)

lemma dict_get_update:
  "distinct (map fst m) \<Longrightarrow> dict_get (dict_update d m) = dict_get d ++ dict_get m"
proof (induction m arbitrary: d)
  case Nil
  show ?case by (simp add: dict_update_def dict_get_def fun_eq_iff)
next
  case (Cons p m)
  obtain k v where p: "p = (k, v)" by (cases p)
  from Cons.prems p have k: "k \<notin> fst ` set m" and d: "distinct (map fst m)" by auto
  from k have n: "map_of m k = None" by (simp add: map_of_eq_None_iff)
  have "dict_get (dict_update d (p # m)) = dict_get (dict_set d k v) ++ dict_get m"
    using Cons.IH[OF d] p by (simp add: dict_update_Cons)
  also have "\<dots> = dict_get d ++ dict_get (p # m)"
    using n p by (auto simp: fun_eq_iff dict_get_def dict_set_def update_conv' map_add_def
        split: option.splits)
  finally show ?case .
qed

lemma merge_metrics_dicts:
  "merge_metrics (map YDict ds) g = Inr (foldl dict_update g ds)"
  by (induction ds arbitrary: g) simp_all

lemma dict_get_foldl_update:
  "\<forall>d\<in>set ds. distinct (map fst d) \<Longrightarrow>
   dict_get (foldl dict_update g ds) = foldl (++) (dict_get g) (map dict_get ds)"
  by (induction ds arbitrary: g) (simp_all add: dict_get_update)

lemma gather_categories_other:
  "gather_categories m gm = Inr gm' \<Longrightarrow> cat \<notin> fst ` set m \<Longrightarrow> dict_get gm' cat = dict_get gm cat"
proof (induction m arbitrary: gm)
  case Nil
  then show ?case by simp
next
  case (Cons p m)
  obtain c v where p: "p = (c, v)" by (cases p)
  from Cons.prems p obtain ms g where v: "v = YList ms" and g: "merge_metrics ms [] = Inr g"
    and r: "gather_categories m (dict_set gm c (YDict g)) = Inr gm'"
    by (auto split: yaml.splits sum.splits)
  from Cons.prems(2) p have "cat \<noteq> c" "cat \<notin> fst ` set m" by auto
  with Cons.IH[OF r] show ?case by (simp add: dict_get_set)
qed

lemma gather_categories_merged:
  "gather_categories m gm = Inr gm' \<Longrightarrow> distinct (map fst m) \<Longrightarrow>
   dict_get m cat = Some (YList (map YDict ds)) \<Longrightarrow>
   dict_get gm' cat = Some (YDict (foldl dict_update [] ds))"
proof (induction m arbitrary: gm)
  case Nil
  then show ?case by (simp add: dict_get_def)
next
  case (Cons p m)
  obtain c v where p: "p = (c, v)" by (cases p)
  from Cons.prems(1) p obtain ms g where v: "v = YList ms" and g: "merge_metrics ms [] = Inr g"
    and r: "gather_categories m (dict_set gm c (YDict g)) = Inr gm'"
    by (auto split: yaml.splits sum.splits)
  from Cons.prems(2) p have nc: "c \<notin> fst ` set m" and d: "distinct (map fst m)" by auto
  show ?case
  proof (cases "cat = c")
    case True
    with Cons.prems(3) p v have "ms = map YDict ds" by (simp add: dict_get_def)
    with g have "g = foldl dict_update [] ds" by (simp add: merge_metrics_dicts)
    moreover from gather_categories_other[OF r] nc True
    have "dict_get gm' cat = dict_get (dict_set gm c (YDict g)) cat" by simp
    ultimately show ?thesis using True by (simp add: dict_get_set)
  next
    case False
    with Cons.prems(3) p have "dict_get m cat = Some (YList (map YDict ds))"
      by (simp add: dict_get_def)
    from Cons.IH[OF r d this] show ?thesis .
  qed
qed

lemma gather_categories_total:
  "\<forall>(cat, v)\<in>set m. \<exists>ds. v = YList (map YDict ds) \<Longrightarrow> \<exists>gm'. gather_categories m gm = Inr gm'"
proof (induction m arbitrary: gm)
  case Nil
  then show ?case by simp
next
  case (Cons p m)
  obtain c v where p: "p = (c, v)" by (cases p)
  from Cons.prems p obtain ds where v: "v = YList (map YDict ds)" by auto
  from Cons.prems have "\<forall>(cat, v)\<in>set m. \<exists>ds. v = YList (map YDict ds)" by simp
  from Cons.IH[OF this] p v show ?case by (simp add: merge_metrics_dicts)
qed

lemma gather_run_D:
  assumes "gather_run run_dir (YDict data) = Inr out"
  obtains gm where
    "gather_categories (case dict_get data ''metrics'' of Some (YDict m) \<Rightarrow> m | _ \<Rightarrow> []) [] = Inr gm"
    "out = YDict (dict_set (dict_set (dict_pop (dict_pop data ''category'') ''command'') ''id'' (YStr run_dir))
             ''metrics'' (YDict gm))"
proof -
  let ?d3 = "dict_set (dict_pop (dict_pop data ''category'') ''command'') ''id'' (YStr run_dir)"
  have m: "dict_get ?d3 ''metrics'' = dict_get data ''metrics''"
    by (simp add: dict_get_set dict_get_pop)
  from assms show ?thesis
    by (auto simp: gather_run_def Let_def m intro!: that split: option.splits yaml.splits sum.splits)
qed

lemma gather_run_total:
  assumes "dict_get data ''metrics'' = None \<or>
           (\<exists>m. dict_get data ''metrics'' = Some (YDict m) \<and> (\<forall>(cat, v)\<in>set m. \<exists>ds. v = YList (map YDict ds)))"
  shows "\<exists>out. gather_run run_dir (YDict data) = Inr (YDict out)"
proof -
  let ?d3 = "dict_set (dict_pop (dict_pop data ''category'') ''command'') ''id'' (YStr run_dir)"
  have m: "dict_get ?d3 ''metrics'' = dict_get data ''metrics''"
    by (simp add: dict_get_set dict_get_pop)
  from assms show ?thesis
  proof
    assume "dict_get data ''metrics'' = None"
    then show ?thesis by (simp add: gather_run_def Let_def m)
  next
    assume "\<exists>m. dict_get data ''metrics'' = Some (YDict m) \<and> (\<forall>(cat, v)\<in>set m. \<exists>ds. v = YList (map YDict ds))"
    then obtain mm where a: "dict_get data ''metrics'' = Some (YDict mm)"
      and b: "\<forall>(cat, v)\<in>set mm. \<exists>ds. v = YList (map YDict ds)" by blast
    from gather_categories_total[OF b, of "[]"] obtain gm where "gather_categories mm [] = Inr gm"
      by blast
    with a show ?thesis by (simp add: gather_run_def Let_def m)
  qed
qed

lemma gather_runs_list_all2:
  "list_all2 (\<lambda>run_dir out. \<exists>data. yaml_load w (osp_join run_dir YAML_REPORT_FILE) = Inr data \<and>
      gather_run run_dir data = Inr out) run_dirs outs \<Longrightarrow>
   gather_runs w run_dirs = Inr outs"
proof (induction run_dirs arbitrary: outs)
  case Nil
  then show ?case by simp
next
  case (Cons rd rds)
  from Cons.prems obtain out outs' data where o: "outs = out # outs'"
    and l: "yaml_load w (osp_join rd YAML_REPORT_FILE) = Inr data"
    and g: "gather_run rd data = Inr out"
    and r: "list_all2 (\<lambda>run_dir out. \<exists>data. yaml_load w (osp_join run_dir YAML_REPORT_FILE) = Inr data \<and>
      gather_run run_dir data = Inr out) rds outs'"
    by (auto simp: list_all2_Cons1)
  from Cons.IH[OF r] o l g show ?case by simp
qed

text \<open>
  C5. The aggregator writes to the metrics file of the category the list of the entries of
  the runs, in the order of the run directories. The entry of a run is computed from the
  report of the run whenever the metrics of the report, if any, give every category a list
  of mappings. In the entry the keys \<open>category\<close> and \<open>command\<close> are absent, \<open>id\<close> is the run
  directory, every other key but \<open>metrics\<close> is as in the report, and \<open>metrics\<close> gives every
  category one mapping: the mappings of its list merged from left to right, where a later
  value for a metric name replaces an earlier one. The mappings \<open>{a: 1}\<close> and \<open>{a: 2}\<close>
  are merged into \<open>{a: 2}\<close>.
\<close>

theorem gather_metrics_last_write_wins:
  "(\<forall>outs. list_all2 (\<lambda>run_dir out. \<exists>data. yaml_load w (osp_join run_dir YAML_REPORT_FILE) = Inr data \<and>
                gather_run run_dir data = Inr out) run_dirs outs \<longrightarrow>
      gather_metrics [(category, run_dirs)] w = Inr (yaml_dump w JSON_METRICS_FILE (YList outs)))
   \<and> (\<forall>data. dict_get data ''metrics'' = None \<or>
         (\<exists>m. dict_get data ''metrics'' = Some (YDict m) \<and>
              (\<forall>(cat, v)\<in>set m. \<exists>ds. v = YList (map YDict ds))) \<longrightarrow>
         (\<exists>out. gather_run run_dir (YDict data) = Inr (YDict out)))
   \<and> (\<forall>data out. gather_run run_dir (YDict data) = Inr out \<longrightarrow>
         (\<exists>entry gm. out = YDict entry \<and>
            dict_get entry ''category'' = None \<and> dict_get entry ''command'' = None \<and>
            dict_get entry ''id'' = Some (YStr run_dir) \<and>
            dict_get entry ''metrics'' = Some (YDict gm) \<and>
            (\<forall>k. k \<notin> {''category'', ''command'', ''id'', ''metrics''} \<longrightarrow>
                 dict_get entry k = dict_get data k) \<and>
            (\<forall>m cat ds. dict_get data ''metrics'' = Some (YDict m) \<and> distinct (map fst m) \<and>
                 dict_get m cat = Some (YList (map YDict ds)) \<and>
                 (\<forall>d\<in>set ds. distinct (map fst d)) \<longrightarrow>
                 (\<exists>g. dict_get gm cat = Some (YDict g) \<and>
                      dict_get g = foldl (++) Map.empty (map dict_get ds)))))
   \<and> merge_metrics [YDict [(''a'', YInt 1)], YDict [(''a'', YInt 2)]] [] = Inr [(''a'', YInt 2)]"
proof (intro conjI allI impI)
  fix outs
  assume "list_all2 (\<lambda>run_dir out. \<exists>data. yaml_load w (osp_join run_dir YAML_REPORT_FILE) = Inr data \<and>
                gather_run run_dir data = Inr out) run_dirs outs"
  from gather_runs_list_all2[OF this]
  show "gather_metrics [(category, run_dirs)] w = Inr (yaml_dump w JSON_METRICS_FILE (YList outs))"
    by simp
next
  fix data
  assume "dict_get data ''metrics'' = None \<or>
         (\<exists>m. dict_get data ''metrics'' = Some (YDict m) \<and>
              (\<forall>(cat, v)\<in>set m. \<exists>ds. v = YList (map YDict ds)))"
  then show "\<exists>out. gather_run run_dir (YDict data) = Inr (YDict out)"
    by (rule gather_run_total)
next
  fix data out
  assume g: "gather_run run_dir (YDict data) = Inr out"
  let ?d3 = "dict_set (dict_pop (dict_pop data ''category'') ''command'') ''id'' (YStr run_dir)"
  from g obtain gm where
    gc: "gather_categories (case dict_get data ''metrics'' of Some (YDict m) \<Rightarrow> m | _ \<Rightarrow> []) [] = Inr gm"
    and out: "out = YDict (dict_set ?d3 ''metrics'' (YDict gm))"
    by (rule gather_run_D)
  let ?entry = "dict_set ?d3 ''metrics'' (YDict gm)"
  have 1: "dict_get ?entry ''category'' = None" "dict_get ?entry ''command'' = None"
    "dict_get ?entry ''id'' = Some (YStr run_dir)" "dict_get ?entry ''metrics'' = Some (YDict gm)"
    by (simp_all add: dict_get_set dict_get_pop)
  have 2: "\<forall>k. k \<notin> {''category'', ''command'', ''id'', ''metrics''} \<longrightarrow>
                 dict_get ?entry k = dict_get data k"
    by (simp add: dict_get_set dict_get_pop)
  have 3: "\<forall>m cat ds. dict_get data ''metrics'' = Some (YDict m) \<and> distinct (map fst m) \<and>
                 dict_get m cat = Some (YList (map YDict ds)) \<and>
                 (\<forall>d\<in>set ds. distinct (map fst d)) \<longrightarrow>
                 (\<exists>g. dict_get gm cat = Some (YDict g) \<and>
                      dict_get g = foldl (++) Map.empty (map dict_get ds))"
  proof (intro allI impI)
    fix m cat ds
    assume h: "dict_get data ''metrics'' = Some (YDict m) \<and> distinct (map fst m) \<and>
                 dict_get m cat = Some (YList (map YDict ds)) \<and>
                 (\<forall>d\<in>set ds. distinct (map fst d))"
    with gc have gc': "gather_categories m [] = Inr gm" by simp
    from h have "dict_get gm cat = Some (YDict (foldl dict_update [] ds))"
      using gather_categories_merged[OF gc'] by blast
    moreover from h have "dict_get (foldl dict_update [] ds) = foldl (++) (dict_get []) (map dict_get ds)"
      using dict_get_foldl_update by blast
    moreover have "dict_get [] = Map.empty" by (simp add: dict_get_def fun_eq_iff)
    ultimately show "\<exists>g. dict_get gm cat = Some (YDict g) \<and>
                      dict_get g = foldl (++) Map.empty (map dict_get ds)"
      by simp
  qed
  from out 1 2 3
  show "\<exists>entry gm. out = YDict entry \<and>
            dict_get entry ''category'' = None \<and> dict_get entry ''command'' = None \<and>
            dict_get entry ''id'' = Some (YStr run_dir) \<and>
            dict_get entry ''metrics'' = Some (YDict gm) \<and>
            (\<forall>k. k \<notin> {''category'', ''command'', ''id'', ''metrics''} \<longrightarrow>
                 dict_get entry k = dict_get data k) \<and>
            (\<forall>m cat ds. dict_get data ''metrics'' = Some (YDict m) \<and> distinct (map fst m) \<and>
                 dict_get m cat = Some (YList (map YDict ds)) \<and>
                 (\<forall>d\<in>set ds. distinct (map fst d)) \<longrightarrow>
                 (\<exists>g. dict_get gm cat = Some (YDict g) \<and>
                      dict_get g = foldl (++) Map.empty (map dict_get ds)))"
    by blast
next
  show "merge_metrics [YDict [(''a'', YInt 1)], YDict [(''a'', YInt 2)]] [] = Inr [(''a'', YInt 2)]"
    by (simp add: dict_update_def dict_set_def)
qed

theorem gather_metrics_last_write_wins_witness:
  "doc_at ''/c/metrics.json'' (state_after (gather_metrics [(''foo'', [''u''])] gather_world))
     = Some (YList [YDict [(''exit_status'', YInt 3),
                           (''metas'', YDict [(''cores'', YInt 1)]),
                           (''metrics'', YDict [(''foo'', YDict [(''a'', YInt 2)])]),
                           (''id'', YStr ''u'')]])
   \<and> (\<exists>entry gm g. gather_run ''u'' (YDict run_doc) = Inr (YDict entry)
         \<and> dict_get entry ''category'' = None \<and> dict_get entry ''command'' = None
         \<and> dict_get entry ''id'' = Some (YStr ''u'')
         \<and> dict_get entry ''exit_status'' = Some (YInt 3)
         \<and> dict_get entry ''metrics'' = Some (YDict gm)
         \<and> dict_get gm ''foo'' = Some (YDict g)
         \<and> dict_get g ''a'' = Some (YInt 2))"
proof -
  let ?out = "YDict [(''exit_status'', YInt 3),
                           (''metas'', YDict [(''cores'', YInt 1)]),
                           (''metrics'', YDict [(''foo'', YDict [(''a'', YInt 2)])]),
                           (''id'', YStr ''u'')]"
  let ?ds = "[[(''a'', YInt 1)], [(''a'', YInt 2)]] :: dict list"
  let ?m = "[(''foo'', YList (map YDict ?ds))]"
  note t = gather_metrics_last_write_wins[where w=gather_world and run_dirs="[''u'']"
      and category="''foo''" and run_dir="''u''"]
  note t1 = t[THEN conjunct1, rule_format]
  note t2 = t[THEN conjunct2, THEN conjunct1, rule_format]
  note t3 = t[THEN conjunct2, THEN conjunct2, THEN conjunct1, rule_format]
  have l: "yaml_load gather_world (osp_join ''u'' YAML_REPORT_FILE) = Inr (YDict run_doc)"
    by (simp add: yaml_load_def gather_world_def abs_path_def osp_join_def YAML_REPORT_FILE_def)
  have m: "dict_get run_doc ''metrics'' = Some (YDict ?m)"
    by (simp add: run_doc_def dict_get_def)
  have sh: "dict_get run_doc ''metrics'' = None \<or>
         (\<exists>m. dict_get run_doc ''metrics'' = Some (YDict m) \<and>
              (\<forall>(cat, v)\<in>set m. \<exists>ds. v = YList (map YDict ds)))"
  proof (rule disjI2, rule exI[of _ ?m], rule conjI[OF m])
    show "\<forall>(cat, v)\<in>set ?m. \<exists>ds. v = YList (map YDict ds)"
      by (simp, rule exI[of _ ?ds], simp)
  qed
  from t2[OF sh] obtain out where g: "gather_run ''u'' (YDict run_doc) = Inr (YDict out)"
    by (rule exE)
  from t3[OF g] obtain entry gm where e: "YDict out = YDict entry"
    "dict_get entry ''category'' = None" "dict_get entry ''command'' = None"
    "dict_get entry ''id'' = Some (YStr ''u'')"
    "dict_get entry ''metrics'' = Some (YDict gm)"
    and k: "\<And>k. k \<notin> {''category'', ''command'', ''id'', ''metrics''} \<Longrightarrow>
                 dict_get entry k = dict_get run_doc k"
    and mm: "\<And>m cat ds. dict_get run_doc ''metrics'' = Some (YDict m) \<and> distinct (map fst m) \<and>
                 dict_get m cat = Some (YList (map YDict ds)) \<and>
                 (\<forall>d\<in>set ds. distinct (map fst d)) \<Longrightarrow>
                 (\<exists>g. dict_get gm cat = Some (YDict g) \<and>
                      dict_get g = foldl (++) Map.empty (map dict_get ds))"
    by (elim exE conjE) (rule that, assumption+, simp, simp)
  have h: "dict_get run_doc ''metrics'' = Some (YDict ?m) \<and> distinct (map fst ?m) \<and>
                 dict_get ?m ''foo'' = Some (YList (map YDict ?ds)) \<and>
                 (\<forall>d\<in>set ?ds. distinct (map fst d))"
    using m by (simp add: dict_get_def)
  from mm[OF h] obtain g' where g': "dict_get gm ''foo'' = Some (YDict g')"
    "dict_get g' = foldl (++) Map.empty (map dict_get ?ds)"
    by (elim exE conjE)
  from g'(2) have a: "dict_get g' ''a'' = Some (YInt 2)"
    by (simp add: dict_get_def)
  have "dict_get entry ''exit_status'' = dict_get run_doc ''exit_status''"
    by (rule k) simp
  then have x: "dict_get entry ''exit_status'' = Some (YInt 3)"
    by (simp add: run_doc_def dict_get_def)
  from e(1) have oe: "out = entry" by simp
  have 2: "\<exists>entry gm g. gather_run ''u'' (YDict run_doc) = Inr (YDict entry)
         \<and> dict_get entry ''category'' = None \<and> dict_get entry ''command'' = None
         \<and> dict_get entry ''id'' = Some (YStr ''u'')
         \<and> dict_get entry ''exit_status'' = Some (YInt 3)
         \<and> dict_get entry ''metrics'' = Some (YDict gm)
         \<and> dict_get gm ''foo'' = Some (YDict g)
         \<and> dict_get g ''a'' = Some (YInt 2)"
    apply (rule exI[of _ entry], rule exI[of _ gm], rule exI[of _ g'])
    using g oe e(2-5) x g'(1) a by simp
  have gv: "gather_run ''u'' (YDict run_doc) = Inr ?out"
    by (simp add: gather_run_def run_doc_def dict_pop_def dict_set_def dict_get_def
        dict_update_def Let_def)
  have la: "list_all2 (\<lambda>run_dir out. \<exists>data. yaml_load gather_world (osp_join run_dir YAML_REPORT_FILE) = Inr data \<and>
                gather_run run_dir data = Inr out) [''u''] [?out]"
    using l gv by simp
  from t1[OF la] have "gather_metrics [(''foo'', [''u''])] gather_world
      = Inr (yaml_dump gather_world JSON_METRICS_FILE (YList [?out]))" .
  then have 1: "doc_at ''/c/metrics.json'' (state_after (gather_metrics [(''foo'', [''u''])] gather_world))
     = Some (YList [?out])"
    by (simp add: doc_at_def state_after_def yaml_dump_def abs_path_def gather_world_def
        osp_join_def JSON_METRICS_FILE_def)
  from 1 2 show ?thesis by (rule conjI)
qed

section \<open>The exit status of a command\<close>







section \<open>What a call changes\<close>










section \<open>The checkpoint of the category node\<close>




end
